theory Spec2Isabelle
  imports Main "HOL-Library.AList"
begin

section \<open>Python values and errors\<close>

text \<open>
  The fragment of Python's values that the repository inspects: the \<open>join_\<close> argument
  is tested for truthiness and for being a \<open>set\<close>, a value of the \<open>where\<close> mapping is
  tested for being a \<open>dict\<close> holding the keys \<open>$gt\<close> and \<open>$lt\<close>. A set is the list of
  its elements in iteration order, a dict is an association list in insertion order, and
  \<open>PObject\<close> is any other object, known by a name only.
\<close>

datatype pyval =
    PNone
  | PBool bool
  | PInt int
  | PStr string
  | PList "pyval list"
  | PSet "pyval list"
  | PDict "(pyval \<times> pyval) list"
  | PObject string

text \<open>
  Exceptions are values. \<open>TypeError\<close>, \<open>AttributeError\<close> and \<open>KeyError\<close> are Python's,
  \<open>ArgumentError\<close>, \<open>NoResultFound\<close> and \<open>MultipleResultsFound\<close> are SQLAlchemy's, raised
  while a query is built or a result is read, \<open>UnmappedInstanceError\<close> is the ORM's for an
  object that has lost its state; \<open>SessionError\<close> is any exception that a call on the
  session raises (\<open>IntegrityError\<close>, \<open>DBAPIError\<close>, \<open>InvalidRequestError\<close>, ...), by the
  name of its class.
\<close>

datatype error =
    TypeError
  | AttributeError
  | KeyError
  | ArgumentError
  | NoResultFound
  | MultipleResultsFound
  | UnmappedInstanceError
  | SessionError string

text \<open>Python's truth value of an object, as \<open>not join_\<close> and \<open>if order_:\<close> test it.\<close>

fun truthy :: "pyval \<Rightarrow> bool" where
  "truthy PNone = False"
| "truthy (PBool b) = b"
| "truthy (PInt i) = (i \<noteq> 0)"
| "truthy (PStr s) = (s \<noteq> [])"
| "truthy (PList xs) = (xs \<noteq> [])"
| "truthy (PSet xs) = (xs \<noteq> [])"
| "truthy (PDict kvs) = (kvs \<noteq> [])"
| "truthy (PObject n) = True"

text \<open>\<open>isinstance(v, set)\<close> and \<open>isinstance(v, dict)\<close>.\<close>

fun is_set :: "pyval \<Rightarrow> bool" where
  "is_set (PSet xs) = True"
| "is_set v = False"

fun is_dict :: "pyval \<Rightarrow> bool" where
  "is_dict (PDict kvs) = True"
| "is_dict v = False"

text \<open>The elements a \<open>for\<close> loop or \<open>reduce\<close> runs over.\<close>

fun elements :: "pyval \<Rightarrow> pyval list" where
  "elements (PList xs) = xs"
| "elements (PSet xs) = xs"
| "elements (PDict kvs) = map fst kvs"
| "elements v = []"

text \<open>\<open>key in v\<close> and \<open>v[key]\<close> for a string key and a dict \<open>v\<close>.\<close>

fun dict_contains :: "pyval \<Rightarrow> string \<Rightarrow> bool" where
  "dict_contains (PDict kvs) k = (map_of kvs (PStr k) \<noteq> None)"
| "dict_contains v k = False"

fun dict_getitem :: "pyval \<Rightarrow> string \<Rightarrow> error + pyval" where
  "dict_getitem (PDict kvs) k =
     (case map_of kvs (PStr k) of None \<Rightarrow> Inl KeyError | Some x \<Rightarrow> Inr x)"
| "dict_getitem v k = Inl TypeError"

text \<open>\<open>str.lower()\<close> on ASCII letters, as \<open>direction.lower()\<close> needs it.\<close>

definition lower_char :: "char \<Rightarrow> char" where
  "lower_char c =
     (if 65 \<le> (of_char c :: nat) \<and> (of_char c :: nat) \<le> 90
      then char_of (of_char c + (32::nat)) else c)"

definition lower :: "string \<Rightarrow> string" where
  "lower s = map lower_char s"

section \<open>Model classes and model instances\<close>

text \<open>
  A mapped class, as far as the repository and \<open>Model.as_dict\<close> look at it.
  \<^item> \<open>mc_columns\<close> is \<open>__table__.columns\<close>, in table order. A column has the name of
    the class attribute it is mapped under (\<open>col_key\<close>), its name in the table
    (\<open>col_name\<close>; the two differ for \<open>id_ = Column('id', ...)\<close>), its type, and the
    default its declaration gives (\<open>PNone\<close> when it declares none).
  \<^item> \<open>mc_descriptors\<close> are the other data descriptors of the class: properties and
    their kin, and what every object has, such as \<open>__class__\<close> and \<open>__dict__\<close>. Reading
    one on an instance runs its getter, assigning to it runs its setter; either may
    raise, and the setter decides what becomes of the \<open>__dict__\<close> of the instance. Every
    subclass of the repository's \<open>Model\<close> has the property \<open>as_dict\<close> here, with a setter
    that always raises \<open>AttributeError\<close>.
  \<^item> \<open>mc_plain\<close> are the names under which the class holds an ordinary object (the
    \<open>metadata\<close>, the \<open>registry\<close>, a method); an assignment on an instance shadows it.
  Read on the class, as the queries do, an attribute is a column or an ordinary Python
  object. A relationship is neither: on the class it is a SQL expression of its own
  kind, and classes with relationships are left out of the queries here.
\<close>

datatype sql_type = SqlInteger | SqlString

record column =
  col_key :: string
  col_name :: string
  col_type :: sql_type
  col_default :: pyval

record descriptor =
  d_get :: "(string \<times> pyval) list \<Rightarrow> error + pyval"
  d_set :: "(string \<times> pyval) list \<Rightarrow> pyval \<Rightarrow> error + (string \<times> pyval) list"

record model_class =
  mc_name :: string
  mc_columns :: "column list"
  mc_descriptors :: "(string \<times> descriptor) list"
  mc_plain :: "string list"

text \<open>
  An instance: its class, its \<open>__dict__\<close>, and the identity under which the session
  holds it, which is the primary key of the row it was loaded from, or \<open>None\<close> for an
  object that no session has persisted. The \<open>__dict__\<close> holds the attribute values set on
  the instance and, under \<open>_sa_instance_state\<close>, the state object that the ORM gives every
  instance before its constructor runs; the column attributes work through it.
\<close>

record model =
  model_cls :: model_class
  model_dict :: "(string \<times> pyval) list"
  model_identity :: pyval

definition InstanceState :: pyval where
  "InstanceState = PObject ''InstanceState''"

definition has_state :: "model \<Rightarrow> bool" where
  "has_state m = (map_of (model_dict m) ''_sa_instance_state'' = Some InstanceState)"

definition column_keys :: "model_class \<Rightarrow> string list" where
  "column_keys mc = map col_key (mc_columns mc)"

definition find_column :: "model_class \<Rightarrow> string \<Rightarrow> column option" where
  "find_column mc k = find (\<lambda>c. col_key c = k) (mc_columns mc)"

text \<open>
  \<open>getattr(cls, k)\<close> on the class: the column mapped under \<open>k\<close>, some other object, or
  \<open>AttributeError\<close>; \<open>hasattr(cls, k)\<close> tells whether it raises.
\<close>

datatype class_attr = ColumnAttr column | ObjectAttr

definition class_getattr :: "model_class \<Rightarrow> string \<Rightarrow> error + class_attr" where
  "class_getattr mc k =
     (case find_column mc k of
        Some c \<Rightarrow> Inr (ColumnAttr c)
      | None \<Rightarrow>
          if map_of (mc_descriptors mc) k \<noteq> None \<or> k \<in> set (mc_plain mc) then Inr ObjectAttr
          else Inl AttributeError)"

definition class_hasattr :: "model_class \<Rightarrow> string \<Rightarrow> bool" where
  "class_hasattr mc k = (class_getattr mc k \<noteq> Inl AttributeError)"

text \<open>
  The value of a column attribute: the one in the \<open>__dict__\<close>, and \<open>None\<close> when none was
  set (the ORM fills declared defaults in when the row is inserted, not when the object
  is built).
\<close>

definition column_value :: "model \<Rightarrow> string \<Rightarrow> pyval" where
  "column_value m k = (case map_of (model_dict m) k of None \<Rightarrow> PNone | Some v \<Rightarrow> v)"

text \<open>
  Reading a column attribute on an instance (\<open>InstrumentedAttribute.__get__\<close>): the value
  in the \<open>__dict__\<close> when there is one; otherwise the state of the instance is asked, which
  gives \<open>None\<close>, and this raises \<open>UnmappedInstanceError\<close> when the instance has no state
  and \<open>AttributeError\<close> when something else is in its place.
\<close>

definition column_get :: "(string \<times> pyval) list \<Rightarrow> string \<Rightarrow> error + pyval" where
  "column_get d k =
     (case map_of d k of
        Some v \<Rightarrow> Inr v
      | None \<Rightarrow>
          (case map_of d ''_sa_instance_state'' of
             None \<Rightarrow> Inl UnmappedInstanceError
           | Some st \<Rightarrow> if st = InstanceState then Inr PNone else Inl AttributeError))"

text \<open>
  \<open>getattr(model, k)\<close> on an instance: a column attribute is read as above; a descriptor
  runs its getter; otherwise the instance's \<open>__dict__\<close> is looked up, then the class.
\<close>

definition getattr :: "model \<Rightarrow> string \<Rightarrow> error + pyval" where
  "getattr m k =
     (case find_column (model_cls m) k of
        Some c \<Rightarrow> column_get (model_dict m) k
      | None \<Rightarrow>
          (case map_of (mc_descriptors (model_cls m)) k of
             Some d \<Rightarrow> d_get d (model_dict m)
           | None \<Rightarrow>
               (case map_of (model_dict m) k of
                  Some v \<Rightarrow> Inr v
                | None \<Rightarrow>
                    if k \<in> set (mc_plain (model_cls m)) then Inr (PObject k)
                    else Inl AttributeError)))"

text \<open>
  \<open>hasattr(model, k)\<close> is \<open>getattr\<close> with \<open>AttributeError\<close> caught; any other exception
  of a getter passes through.
\<close>

definition hasattr :: "model \<Rightarrow> string \<Rightarrow> error + bool" where
  "hasattr m k =
     (case getattr m k of
        Inr v \<Rightarrow> Inr True
      | Inl e \<Rightarrow> if e = AttributeError then Inr False else Inl e)"

text \<open>
  \<open>setattr(model, k, v)\<close>: a column attribute stores the value through the state of the
  instance (\<open>InstrumentedAttribute.__set__\<close>), which is an \<open>AttributeError\<close> when the state
  is not there; another descriptor runs its setter; any other name is stored on the
  instance.
\<close>

definition setattr :: "model \<Rightarrow> string \<Rightarrow> pyval \<Rightarrow> error + model" where
  "setattr m k v =
     (case find_column (model_cls m) k of
        Some c \<Rightarrow>
          if has_state m then Inr (m\<lparr>model_dict := AList.update k v (model_dict m)\<rparr>)
          else Inl AttributeError
      | None \<Rightarrow>
          (case map_of (mc_descriptors (model_cls m)) k of
             Some d \<Rightarrow>
               (case d_set d (model_dict m) v of
                  Inl e \<Rightarrow> Inl e
                | Inr dict' \<Rightarrow> Inr (m\<lparr>model_dict := dict'\<rparr>))
           | None \<Rightarrow> Inr (m\<lparr>model_dict := AList.update k v (model_dict m)\<rparr>)))"

text \<open>
  \<open>Model.as_dict\<close>: \<open>{c.name: getattr(self, c.name) for c in self.__table__.columns}\<close>.
  The attribute read is the one called like the column in the table; the first read
  that raises ends the comprehension.
\<close>

fun columns_dict :: "model \<Rightarrow> column list \<Rightarrow> error + (string \<times> pyval) list" where
  "columns_dict self [] = Inr []"
| "columns_dict self (c # cs) =
     (case getattr self (col_name c) of
        Inl e \<Rightarrow> Inl e
      | Inr v \<Rightarrow> (case columns_dict self cs of
                    Inl e \<Rightarrow> Inl e
                  | Inr items \<Rightarrow> Inr ((col_name c, v) # items)))"

definition as_dict :: "model \<Rightarrow> error + (string \<times> pyval) list" where
  "as_dict self = columns_dict self (mc_columns (model_cls self))"

text \<open>
  The constructor that \<open>declarative_base()\<close> gives every mapped class, called by
  \<open>self.model_class(**attributes)\<close> on a new instance, which has its state and nothing
  else: for each keyword in turn, \<open>TypeError\<close> when the class has no attribute of that
  name, \<open>setattr\<close> otherwise.
\<close>

fun declarative_constructor :: "model \<Rightarrow> (string \<times> pyval) list \<Rightarrow> error + model" where
  "declarative_constructor self [] = Inr self"
| "declarative_constructor self ((k, v) # kwargs) =
     (if \<not> class_hasattr (model_cls self) k then Inl TypeError
      else (case setattr self k v of
              Inl e \<Rightarrow> Inl e
            | Inr self' \<Rightarrow> declarative_constructor self' kwargs))"

definition new_instance :: "model_class \<Rightarrow> model" where
  "new_instance mc =
     \<lparr>model_cls = mc, model_dict = [(''_sa_instance_state'', InstanceState)],
      model_identity = PNone\<rparr>"

definition new_model :: "model_class \<Rightarrow> (string \<times> pyval) list \<Rightarrow> error + model" where
  "new_model mc kwargs = declarative_constructor (new_instance mc) kwargs"

section \<open>Queries\<close>

text \<open>
  A \<open>Select\<close> as the repository composes it: the entity selected, offset and limit, the
  criteria given to \<open>where\<close>, the \<open>order_by\<close> clauses, and what join methods have
  added. A criterion is \<open>column == v\<close>, \<open>between(column, lo, hi)\<close>, the constant
  \<open>False\<close>, or \<open>and_\<close> of criteria; columns are named by their attribute.
\<close>

datatype cond =
    Eq string pyval
  | Between string pyval pyval
  | FalseCond
  | And "cond list"

datatype direction = Asc | Desc

record select_q =
  q_entity :: model_class
  q_offset :: "int option"
  q_limit :: "int option"
  q_where :: "cond list"
  q_order :: "(string \<times> direction) list"
  q_joins :: "string list"

definition select :: "model_class \<Rightarrow> select_q" where
  "select mc = \<lparr>q_entity = mc, q_offset = None, q_limit = None, q_where = [],
                q_order = [], q_joins = []\<rparr>"

text \<open>
  What the operators of SQLAlchemy make of an attribute of the class.
  \<open>getattr(cls, k) == v\<close> is a criterion for a column and Python's own comparison for any
  other object, which is \<open>False\<close>, and \<open>where(False)\<close> selects nothing.
  \<open>between(x, lo, hi)\<close>, \<open>asc(x)\<close> and \<open>desc(x)\<close> raise \<open>ArgumentError\<close> for an \<open>x\<close> that is
  no SQL expression; \<open>x.asc()\<close> and \<open>x.desc()\<close> are methods that such an object does not
  have.
\<close>

fun attr_eq :: "class_attr \<Rightarrow> pyval \<Rightarrow> cond" where
  "attr_eq (ColumnAttr c) v = Eq (col_key c) v"
| "attr_eq ObjectAttr v = FalseCond"

fun attr_between :: "class_attr \<Rightarrow> pyval \<Rightarrow> pyval \<Rightarrow> error + cond" where
  "attr_between (ColumnAttr c) lo hi = Inr (Between (col_key c) lo hi)"
| "attr_between ObjectAttr lo hi = Inl ArgumentError"

fun attr_order :: "class_attr \<Rightarrow> direction \<Rightarrow> error + (string \<times> direction)" where
  "attr_order (ColumnAttr c) d = Inr (col_key c, d)"
| "attr_order ObjectAttr d = Inl ArgumentError"

fun attr_order_method :: "class_attr \<Rightarrow> direction \<Rightarrow> error + (string \<times> direction)" where
  "attr_order_method (ColumnAttr c) d = Inr (col_key c, d)"
| "attr_order_method ObjectAttr d = Inl AttributeError"

section \<open>The session\<close>

text \<open>
  The \<open>AsyncSession\<close> is supplied from outside and the repository only calls it. A
  session is the list of the calls made on it so far, with what it answers: whether
  \<open>add\<close>, \<open>delete\<close> and \<open>commit\<close> raise, the rows (or the exception) of \<open>scalars\<close> and
  of \<open>execute\<close>, and the state in which a \<open>commit\<close> leaves an object it holds (a flush
  fills defaults in, a commit may expire attributes). Each answer may depend on every
  earlier call, so pending changes may or may not be seen by a later query.
\<close>

datatype session_call =
    Add model
  | Delete model
  | Commit
  | Scalars select_q
  | Execute select_q

record session =
  add_raises :: "session_call list \<Rightarrow> model \<Rightarrow> error option"
  delete_raises :: "session_call list \<Rightarrow> model \<Rightarrow> error option"
  commit_raises :: "session_call list \<Rightarrow> error option"
  scalars_result :: "session_call list \<Rightarrow> select_q \<Rightarrow> error + model list"
  execute_result :: "session_call list \<Rightarrow> select_q \<Rightarrow> error + model list"
  after_commit :: "session_call list \<Rightarrow> model \<Rightarrow> model"
  calls :: "session_call list"

type_synonym 'a result = "(error + 'a) \<times> session"

definition record_call :: "session_call \<Rightarrow> session \<Rightarrow> session" where
  "record_call c s = s\<lparr>calls := calls s @ [c]\<rparr>"

definition raised :: "error option \<Rightarrow> error + unit" where
  "raised r = (case r of None \<Rightarrow> Inr () | Some e \<Rightarrow> Inl e)"

definition session_add :: "model \<Rightarrow> session \<Rightarrow> unit result" where
  "session_add m s = (raised (add_raises s (calls s) m), record_call (Add m) s)"

definition session_delete :: "model \<Rightarrow> session \<Rightarrow> unit result" where
  "session_delete m s = (raised (delete_raises s (calls s) m), record_call (Delete m) s)"

definition session_commit :: "session \<Rightarrow> unit result" where
  "session_commit s = (raised (commit_raises s (calls s)), record_call Commit s)"

definition session_scalars :: "select_q \<Rightarrow> session \<Rightarrow> model list result" where
  "session_scalars q s = (scalars_result s (calls s) q, record_call (Scalars q) s)"

definition session_execute :: "select_q \<Rightarrow> session \<Rightarrow> model list result" where
  "session_execute q s = (execute_result s (calls s) q, record_call (Execute q) s)"

section \<open>PostgresRepository\<close>

text \<open>
  A repository holds its model class; the \<open>_join_<name>\<close> methods that a subclass
  defines are the table \<open>join_methods\<close>, each a function from \<open>Select\<close> to \<open>Select\<close>.
  The session is passed to every operation and returned with it. Names are the
  source's without the leading underscore; \<open>_query\<close>, \<open>_all\<close>, \<open>_one\<close>, \<open>_first\<close>
  and \<open>_get_by\<close> are \<open>base_query\<close>, \<open>all_scalars\<close>, \<open>one_scalar\<close>, \<open>first_scalar\<close> and
  \<open>get_by_where\<close>.
\<close>

record repository =
  repo_model_class :: model_class
  join_methods :: "string \<rightharpoonup> (select_q \<Rightarrow> select_q)"

text \<open>\<open>functools.reduce(f, xs, initial)\<close>, stopping at the first exception.\<close>

fun reduce :: "('a \<Rightarrow> 'b \<Rightarrow> error + 'a) \<Rightarrow> 'b list \<Rightarrow> 'a \<Rightarrow> error + 'a" where
  "reduce f [] acc = Inr acc"
| "reduce f (x # xs) acc =
     (case f acc x of Inl e \<Rightarrow> Inl e | Inr acc' \<Rightarrow> reduce f xs acc')"

text \<open>
  \<open>_add_join_to_query\<close>: \<open>getattr(self, '_join_' + join_)(query)\<close>. Concatenating a
  string with anything but a string is a \<open>TypeError\<close>; a missing method is an
  \<open>AttributeError\<close>.
\<close>

fun add_join_to_query :: "repository \<Rightarrow> select_q \<Rightarrow> pyval \<Rightarrow> error + select_q" where
  "add_join_to_query self query (PStr name) =
     (case join_methods self name of
        None \<Rightarrow> Inl AttributeError
      | Some join_method \<Rightarrow> Inr (join_method query))"
| "add_join_to_query self query v = Inl TypeError"

definition maybe_join :: "repository \<Rightarrow> select_q \<Rightarrow> pyval \<Rightarrow> error + select_q" where
  "maybe_join self query join' =
     (if \<not> truthy join' then Inr query
      else if \<not> is_set join' then Inl TypeError
      else reduce (add_join_to_query self) (elements join') query)"

text \<open>
  \<open>_maybe_ordered\<close>: \<open>order_\<close> is a dict from \<open>'asc'\<close> and \<open>'desc'\<close> to lists of column
  names, or \<open>None\<close>. \<open>order_['asc']\<close> raises \<open>KeyError\<close> when the key is absent; each
  name goes through \<open>getattr(self.model_class, order).asc()\<close> or \<open>.desc()\<close>.
\<close>

fun order_by_all :: "model_class \<Rightarrow> direction \<Rightarrow> string list \<Rightarrow> select_q \<Rightarrow> error + select_q" where
  "order_by_all mc d [] query = Inr query"
| "order_by_all mc d (c # cs) query =
     (case class_getattr mc c of
        Inl e \<Rightarrow> Inl e
      | Inr a \<Rightarrow>
          (case attr_order_method a d of
             Inl e \<Rightarrow> Inl e
           | Inr clause \<Rightarrow> order_by_all mc d cs (query\<lparr>q_order := q_order query @ [clause]\<rparr>)))"

definition maybe_ordered ::
  "repository \<Rightarrow> select_q \<Rightarrow> (string \<times> string list) list option \<Rightarrow> error + select_q" where
  "maybe_ordered self query order' =
     (case order' of
        None \<Rightarrow> Inr query
      | Some d \<Rightarrow>
          if d = [] then Inr query
          else (case map_of d ''asc'' of
                  None \<Rightarrow> Inl KeyError
                | Some ascs \<Rightarrow>
                    if ascs \<noteq> [] then order_by_all (repo_model_class self) Asc ascs query
                    else (case map_of d ''desc'' of
                            None \<Rightarrow> Inl KeyError
                          | Some descs \<Rightarrow>
                              order_by_all (repo_model_class self) Desc descs query)))"

text \<open>\<open>_query\<close>: \<open>select(self.model_class)\<close>, then the joins, then the order.\<close>

definition base_query ::
  "repository \<Rightarrow> pyval \<Rightarrow> (string \<times> string list) list option \<Rightarrow> error + select_q" where
  "base_query self join' order' =
     (case maybe_join self (select (repo_model_class self)) join' of
        Inl e \<Rightarrow> Inl e
      | Inr q \<Rightarrow> maybe_ordered self q order')"

text \<open>
  The results of a query. \<open>_all\<close> is \<open>scalars(query).all()\<close>; \<open>all_unique\<close> is
  \<open>execute(query).unique().scalars().all()\<close>, where \<open>unique()\<close> drops the repeated
  entities; \<open>_first\<close>, \<open>_one_or_none\<close> and \<open>_one\<close> read \<open>scalars(query)\<close> with the
  result object's \<open>first()\<close>, \<open>one_or_none()\<close> and \<open>one()\<close>. An exception of the session
  passes through.
\<close>

definition all_scalars :: "select_q \<Rightarrow> session \<Rightarrow> model list result" where
  "all_scalars q s = session_scalars q s"

definition all_unique :: "select_q \<Rightarrow> session \<Rightarrow> model list result" where
  "all_unique q s =
     (case session_execute q s of
        (Inl e, s') \<Rightarrow> (Inl e, s')
      | (Inr rows, s') \<Rightarrow> (Inr (remdups rows), s'))"

definition first_scalar :: "select_q \<Rightarrow> session \<Rightarrow> model option result" where
  "first_scalar q s =
     (case session_scalars q s of
        (Inl e, s') \<Rightarrow> (Inl e, s')
      | (Inr [], s') \<Rightarrow> (Inr None, s')
      | (Inr (r # rows), s') \<Rightarrow> (Inr (Some r), s'))"

definition one_or_none :: "select_q \<Rightarrow> session \<Rightarrow> model option result" where
  "one_or_none q s =
     (case session_scalars q s of
        (Inl e, s') \<Rightarrow> (Inl e, s')
      | (Inr [], s') \<Rightarrow> (Inr None, s')
      | (Inr [r], s') \<Rightarrow> (Inr (Some r), s')
      | (Inr (r # r' # rows), s') \<Rightarrow> (Inl MultipleResultsFound, s'))"

definition one_scalar :: "select_q \<Rightarrow> session \<Rightarrow> model result" where
  "one_scalar q s =
     (case session_scalars q s of
        (Inl e, s') \<Rightarrow> (Inl e, s')
      | (Inr [], s') \<Rightarrow> (Inl NoResultFound, s')
      | (Inr [r], s') \<Rightarrow> (Inr r, s')
      | (Inr (r # r' # rows), s') \<Rightarrow> (Inl MultipleResultsFound, s'))"

text \<open>\<open>_get_by\<close>: \<open>query.where(getattr(self.model_class, field) == value)\<close>.\<close>

definition get_by_where :: "repository \<Rightarrow> select_q \<Rightarrow> string \<Rightarrow> pyval \<Rightarrow> error + select_q" where
  "get_by_where self query field value =
     (case class_getattr (repo_model_class self) field of
        Inl e \<Rightarrow> Inl e
      | Inr a \<Rightarrow> Inr (query\<lparr>q_where := q_where query @ [attr_eq a value]\<rparr>))"

subsection \<open>create, delete, update\<close>

definition create :: "repository \<Rightarrow> (string \<times> pyval) list option \<Rightarrow> session \<Rightarrow> model result" where
  "create self attributes s =
     (let attributes = (case attributes of None \<Rightarrow> [] | Some a \<Rightarrow> a) in
      case new_model (repo_model_class self) attributes of
        Inl e \<Rightarrow> (Inl e, s)
      | Inr model \<Rightarrow>
          (case session_add model s of
             (Inl e, s') \<Rightarrow> (Inl e, s')
           | (Inr u, s') \<Rightarrow> (Inr model, s')))"

definition delete :: "repository \<Rightarrow> model \<Rightarrow> session \<Rightarrow> unit result" where
  "delete self model s = session_delete model s"

text \<open>The loop of \<open>update\<close>: \<open>if hasattr(model, key): setattr(model, key, value)\<close>.\<close>

fun update_attributes :: "model \<Rightarrow> (string \<times> pyval) list \<Rightarrow> error + model" where
  "update_attributes model [] = Inr model"
| "update_attributes model ((key, value) # attributes) =
     (case hasattr model key of
        Inl e \<Rightarrow> Inl e
      | Inr True \<Rightarrow>
          (case setattr model key value of
             Inl e \<Rightarrow> Inl e
           | Inr model' \<Rightarrow> update_attributes model' attributes)
      | Inr False \<Rightarrow> update_attributes model attributes)"

text \<open>
  \<open>update\<close>: the loop, \<open>self.session.add(model)\<close>, \<open>await self.session.commit()\<close>,
  \<open>return model\<close>. The object returned is the one committed, in the state the commit
  leaves it.
\<close>

definition update :: "repository \<Rightarrow> model \<Rightarrow> (string \<times> pyval) list \<Rightarrow> session \<Rightarrow> model result" where
  "update self model attributes s =
     (case update_attributes model attributes of
        Inl e \<Rightarrow> (Inl e, s)
      | Inr model' \<Rightarrow>
          (case session_add model' s of
             (Inl e, s') \<Rightarrow> (Inl e, s')
           | (Inr u, s') \<Rightarrow>
               (case session_commit s' of
                  (Inl e, s'') \<Rightarrow> (Inl e, s'')
                | (Inr u', s'') \<Rightarrow> (Inr (after_commit s'' (calls s'') model'), s''))))"

subsection \<open>get_all and get_by\<close>

text \<open>
  One entry of \<open>where\<close>: \<open>between\<close> when the value is a dict with both \<open>$gt\<close> and
  \<open>$lt\<close>, \<open>==\<close> otherwise. \<open>getattr(self.model_class, k)\<close> comes first in both branches
  and raises \<open>AttributeError\<close> for a name the class does not have.
\<close>

definition where_condition :: "model_class \<Rightarrow> string \<Rightarrow> pyval \<Rightarrow> error + cond" where
  "where_condition mc k v =
     (if is_dict v \<and> dict_contains v ''$gt'' \<and> dict_contains v ''$lt''
      then (case class_getattr mc k of
              Inl e \<Rightarrow> Inl e
            | Inr a \<Rightarrow>
                (case dict_getitem v ''$gt'' of
                   Inl e \<Rightarrow> Inl e
                 | Inr lo \<Rightarrow> (case dict_getitem v ''$lt'' of
                                Inl e \<Rightarrow> Inl e
                              | Inr hi \<Rightarrow> attr_between a lo hi)))
      else (case class_getattr mc k of
              Inl e \<Rightarrow> Inl e
            | Inr a \<Rightarrow> Inr (attr_eq a v)))"

fun where_conditions :: "model_class \<Rightarrow> (string \<times> pyval) list \<Rightarrow> error + cond list" where
  "where_conditions mc [] = Inr []"
| "where_conditions mc ((k, v) # items) =
     (case where_condition mc k v of
        Inl e \<Rightarrow> Inl e
      | Inr c \<Rightarrow> (case where_conditions mc items of
                    Inl e \<Rightarrow> Inl e
                  | Inr cs \<Rightarrow> Inr (c # cs)))"

text \<open>The block \<open>if where is not None:\<close> of \<open>get_all\<close>, ending in \<open>query.where(and_(*conditions))\<close>.\<close>

definition apply_where ::
  "repository \<Rightarrow> (string \<times> pyval) list option \<Rightarrow> select_q \<Rightarrow> error + select_q" where
  "apply_where self where' query =
     (case where' of
        None \<Rightarrow> Inr query
      | Some items \<Rightarrow>
          (case where_conditions (repo_model_class self) items of
             Inl e \<Rightarrow> Inl e
           | Inr conditions \<Rightarrow> Inr (query\<lparr>q_where := q_where query @ [And conditions]\<rparr>)))"

text \<open>
  The block \<open>if order_by is not None:\<close> of \<open>get_all\<close>: \<open>desc(getattr(...))\<close> when
  \<open>direction.lower() == 'desc'\<close>, \<open>asc(getattr(...))\<close> otherwise.
\<close>

definition apply_order_by ::
  "repository \<Rightarrow> (string \<times> string) option \<Rightarrow> select_q \<Rightarrow> error + select_q" where
  "apply_order_by self order_by query =
     (case order_by of
        None \<Rightarrow> Inr query
      | Some (column, direction) \<Rightarrow>
          (case class_getattr (repo_model_class self) column of
             Inl e \<Rightarrow> Inl e
           | Inr a \<Rightarrow>
               (case attr_order a (if lower direction = ''desc'' then Desc else Asc) of
                  Inl e \<Rightarrow> Inl e
                | Inr clause \<Rightarrow> Inr (query\<lparr>q_order := q_order query @ [clause]\<rparr>))))"

definition get_all ::
  "repository \<Rightarrow> int \<Rightarrow> int \<Rightarrow> pyval \<Rightarrow> (string \<times> pyval) list option \<Rightarrow>
   (string \<times> string) option \<Rightarrow> session \<Rightarrow> model list result" where
  "get_all self skip limit join' where' order_by s =
     (case base_query self join' None of
        Inl e \<Rightarrow> (Inl e, s)
      | Inr q \<Rightarrow>
          (case apply_where self where' (q\<lparr>q_offset := Some skip, q_limit := Some limit\<rparr>) of
             Inl e \<Rightarrow> (Inl e, s)
           | Inr q' \<Rightarrow>
               (case apply_order_by self order_by q' of
                  Inl e \<Rightarrow> (Inl e, s)
                | Inr q'' \<Rightarrow>
                    if join' \<noteq> PNone then all_unique q'' s else all_scalars q'' s)))"

text \<open>
  \<open>get_by\<close> returns one model or a list of models; \<open>wrap\<close> passes the result of a
  helper on under one of the two tags, an exception as it is.
\<close>

datatype found = One model | Many "model list"

definition wrap :: "('a \<Rightarrow> 'b) \<Rightarrow> 'a result \<Rightarrow> 'b result" where
  "wrap f r = (case fst r of Inl e \<Rightarrow> (Inl e, snd r) | Inr x \<Rightarrow> (Inr (f x), snd r))"

definition get_by ::
  "repository \<Rightarrow> string \<Rightarrow> pyval \<Rightarrow> pyval \<Rightarrow> bool \<Rightarrow> session \<Rightarrow> found result" where
  "get_by self field value join' unique s =
     (case base_query self join' None of
        Inl e \<Rightarrow> (Inl e, s)
      | Inr q \<Rightarrow>
          (case get_by_where self q field value of
             Inl e \<Rightarrow> (Inl e, s)
           | Inr q' \<Rightarrow>
               if join' \<noteq> PNone then wrap Many (all_unique q' s)
               else if unique then wrap One (one_scalar q' s)
               else wrap Many (all_scalars q' s)))"

subsection \<open>Sequences of repository calls\<close>

text \<open>
  A caller's use of one repository on one session: the calls in order, each on the
  session the previous one left, whatever it returned or raised.
\<close>

datatype repo_call =
    CallCreate "(string \<times> pyval) list option"
  | CallDelete model
  | CallUpdate model "(string \<times> pyval) list"
  | CallGetAll int int pyval "(string \<times> pyval) list option" "(string \<times> string) option"
  | CallGetBy string pyval pyval bool

fun run_call :: "repository \<Rightarrow> repo_call \<Rightarrow> session \<Rightarrow> session" where
  "run_call self (CallCreate attributes) s = snd (create self attributes s)"
| "run_call self (CallDelete model) s = snd (delete self model s)"
| "run_call self (CallUpdate model attributes) s = snd (update self model attributes s)"
| "run_call self (CallGetAll skip limit join' where' order_by) s =
     snd (get_all self skip limit join' where' order_by s)"
| "run_call self (CallGetBy field value join' unique) s =
     snd (get_by self field value join' unique s)"

definition run_calls :: "repository \<Rightarrow> repo_call list \<Rightarrow> session \<Rightarrow> session" where
  "run_calls self cs s = fold (run_call self) cs s"

fun is_update :: "repo_call \<Rightarrow> bool" where
  "is_update (CallUpdate model attributes) = True"
| "is_update c = False"

text \<open>How often \<open>commit\<close> was called on the session.\<close>

definition commits :: "session \<Rightarrow> nat" where
  "commits s = length (filter (\<lambda>c. c = Commit) (calls s))"

section \<open>The health-check endpoint\<close>

record Test =
  test1 :: "string option"
  test2 :: "string option"

type_synonym payload = "(string \<times> string) list"

text \<open>\<open>HealthCheck.get\<close>: the body reads neither the request nor the query parameters.\<close>

definition HealthCheck_get :: "'request \<Rightarrow> Test \<Rightarrow> payload" where
  "HealthCheck_get request query_params = [(''status'', ''ok'')]"

text \<open>
  Modelled from the spec: \<open>Cache.cached\<close> of \<open>src.core.cache\<close>, which is not among the
  sources. The spec describes "a decorator taking {tag, ttl, identify: {query_params:
  [...]}}, producing a response cache keyed by tag + selected identifying parameters,
  expiring after ttl seconds". An entry holds the payload and the time it was stored; a
  fresh entry answers the request, otherwise the handler runs and its payload is stored.
\<close>

type_synonym cache = "(string \<times> string option) \<rightharpoonup> (payload \<times> nat)"

definition fresh :: "cache \<Rightarrow> string \<times> string option \<Rightarrow> nat \<Rightarrow> nat \<Rightarrow> payload option" where
  "fresh c key ttl now =
     (case c key of
        None \<Rightarrow> None
      | Some (p, stored) \<Rightarrow> if now < stored + ttl then Some p else None)"

definition cached ::
  "string \<Rightarrow> nat \<Rightarrow> (Test \<Rightarrow> string option) \<Rightarrow> ('request \<Rightarrow> Test \<Rightarrow> payload) \<Rightarrow>
   nat \<Rightarrow> 'request \<Rightarrow> Test \<Rightarrow> cache \<Rightarrow> payload \<times> cache" where
  "cached tag ttl identify handler now request query_params c =
     (let key = (tag, identify query_params)
      in case fresh c key ttl now of
           Some p \<Rightarrow> (p, c)
         | None \<Rightarrow> (let p = handler request query_params in (p, c(key \<mapsto> (p, now)))))"

text \<open>
  Modelled from the spec: the dispatch of \<open>HTTPEndpoint\<close> of \<open>src.core\<close>, which is not
  among the sources. The spec gives the HTTP surface as "one GET route, optional query
  parameter test1 (string), response body {"status": "ok"}, HTTP 200": the dict the
  handler returns is the body of a response with status 200. The handler is the
  decorated \<open>get\<close>: tag \<open>GET_HEALTH_CHECK\<close>, \<open>ttl=120\<close>, identified by \<open>test1\<close>.
\<close>

record response =
  status_code :: nat
  body :: payload

definition health_check :: "nat \<Rightarrow> 'request \<Rightarrow> Test \<Rightarrow> cache \<Rightarrow> response \<times> cache" where
  "health_check now request query_params c =
     (case cached ''GET_HEALTH_CHECK'' 120 test1 HealthCheck_get now request query_params c of
        (p, c') \<Rightarrow> (\<lparr>status_code = 200, body = p\<rparr>, c'))"

text \<open>The responses to requests arriving one after the other, each at its time.\<close>

fun serve :: "(nat \<times> 'request \<times> Test) list \<Rightarrow> cache \<Rightarrow> response list" where
  "serve [] c = []"
| "serve ((now, request, query_params) # rest) c =
     (case health_check now request query_params c of (r, c') \<Rightarrow> r # serve rest c')"

text \<open>Every entry of a cache that only the health check has filled holds its payload.\<close>

definition cache_ok :: "cache \<Rightarrow> bool" where
  "cache_ok c = (\<forall>k p t. c k = Some (p, t) \<longrightarrow> p = [(''status'', ''ok'')])"

section \<open>The words of the specification\<close>

text \<open>
  The specification's words for the model that \<open>create\<close> returns: its \<open>as_dict\<close>
  "reflects exactly the supplied attributes merged with declared defaults", over every
  declared column in table order.
\<close>

definition spec_merged_with_defaults ::
  "model_class \<Rightarrow> (string \<times> pyval) list \<Rightarrow> (string \<times> pyval) list" where
  "spec_merged_with_defaults mc attributes =
     map (\<lambda>c. (col_name c, case map_of attributes (col_key c) of
                              None \<Rightarrow> col_default c | Some v \<Rightarrow> v))
       (mc_columns mc)"



section \<open>An example: users in memory\<close>

text \<open>
  What a criterion means in SQL, on rows held in memory: \<open>column == v\<close> is
  \<open>column IS NULL\<close> for \<open>v = None\<close> and \<open>column = v\<close> otherwise, true of the rows whose
  value is \<open>v\<close>; \<open>between(column, lo, hi)\<close> is \<open>column BETWEEN lo AND hi\<close>, that is
  \<open>lo <= column AND column <= hi\<close>. A comparison with \<open>NULL\<close> is unknown and \<open>WHERE\<close>
  keeps the rows whose condition is true; there is no negation, so unknown and false
  need not be told apart.
\<close>

fun sql_le :: "pyval \<Rightarrow> pyval \<Rightarrow> bool" where
  "sql_le (PInt a) (PInt b) = (a \<le> b)"
| "sql_le x y = False"

fun cond_holds :: "cond \<Rightarrow> model \<Rightarrow> bool" where
  "cond_holds (Eq k v) r = (column_value r k = v)"
| "cond_holds (Between k lo hi) r = (sql_le lo (column_value r k) \<and> sql_le (column_value r k) hi)"
| "cond_holds FalseCond r = False"
| "cond_holds (And cs) r = list_all (\<lambda>c. cond_holds c r) cs"

text \<open>
  The in-memory session answers a small fragment and raises \<open>DBAPIError\<close>, the class of
  the errors that come from the driver, for everything else: it does so where the driver
  does, for a value that the type of the column refuses and for a negative offset or
  limit, and also where this fragment ends, as a session does whose connection is gone.
  A parameter is \<open>None\<close>, an integer of 32 bits for an integer column, or a string for a
  string column; ranges are over integer columns; there is no ordering.
\<close>

fun binds :: "sql_type \<Rightarrow> pyval \<Rightarrow> bool" where
  "binds t PNone = True"
| "binds SqlInteger (PInt i) = (- 2147483648 \<le> i \<and> i \<le> 2147483647)"
| "binds SqlString (PStr s) = True"
| "binds t v = False"

fun cond_supported :: "model_class \<Rightarrow> cond \<Rightarrow> bool" where
  "cond_supported mc (Eq k v) =
     (case find_column mc k of None \<Rightarrow> False | Some c \<Rightarrow> binds (col_type c) v)"
| "cond_supported mc (Between k lo hi) =
     (case find_column mc k of
        None \<Rightarrow> False
      | Some c \<Rightarrow> col_type c = SqlInteger \<and> binds SqlInteger lo \<and> binds SqlInteger hi)"
| "cond_supported mc FalseCond = True"
| "cond_supported mc (And cs) = list_all (cond_supported mc) cs"

text \<open>
  The only join is the one with the tasks, and every user has two tasks: the joined
  rows have each user twice. The criteria, then the offset and the limit, apply to the
  joined rows.
\<close>

definition joined :: "select_q \<Rightarrow> model list \<Rightarrow> model list" where
  "joined q rows = (if q_joins q = [] then rows else concat (map (\<lambda>r. [r, r]) rows))"

definition memory_select :: "model list \<Rightarrow> select_q \<Rightarrow> error + model list" where
  "memory_select rows q =
     (if \<not> list_all (cond_supported (q_entity q)) (q_where q) \<or> q_order q \<noteq> []
         \<or> (q_joins q \<noteq> [] \<and> q_joins q \<noteq> [''tasks''])
         \<or> (case q_offset q of None \<Rightarrow> False | Some k \<Rightarrow> k < 0)
         \<or> (case q_limit q of None \<Rightarrow> False | Some n \<Rightarrow> n < 0)
      then Inl (SessionError ''DBAPIError'')
      else
        (let matching = filter (\<lambda>r. list_all (\<lambda>c. cond_holds c r) (q_where q)) (joined q rows);
             skipped = (case q_offset q of None \<Rightarrow> matching | Some k \<Rightarrow> drop (nat k) matching)
         in Inr (case q_limit q of None \<Rightarrow> skipped | Some n \<Rightarrow> take (nat n) skipped)))"

text \<open>
  A subclass \<open>User\<close> of \<open>Model\<close> with the columns \<open>id\<close>, \<open>name\<close> and \<open>status\<close> (default
  \<open>'active'\<close>), each mapped under its own name.
\<close>

definition user_columns :: "column list" where
  "user_columns =
     [\<lparr>col_key = ''id'', col_name = ''id'', col_type = SqlInteger, col_default = PNone\<rparr>,
      \<lparr>col_key = ''name'', col_name = ''name'', col_type = SqlString, col_default = PNone\<rparr>,
      \<lparr>col_key = ''status'', col_name = ''status'', col_type = SqlString,
       col_default = PStr ''active''\<rparr>]"


text \<open>
  Its data descriptors besides the columns. The property \<open>as_dict\<close> reads every column,
  which here is the column attribute of that name, and has no setter. \<open>__class__\<close> takes
  the class of the instance and nothing else among these values. \<open>__dict__\<close> takes a
  dict, whose entries under string keys are the attributes from then on, and nothing
  else. \<open>__weakref__\<close> cannot be assigned.
\<close>

fun read_columns :: "(string \<times> pyval) list \<Rightarrow> column list \<Rightarrow> error + (pyval \<times> pyval) list" where
  "read_columns d [] = Inr []"
| "read_columns d (c # cs) =
     (case column_get d (col_name c) of
        Inl e \<Rightarrow> Inl e
      | Inr v \<Rightarrow> (case read_columns d cs of
                    Inl e \<Rightarrow> Inl e
                  | Inr items \<Rightarrow> Inr ((PStr (col_name c), v) # items)))"

definition as_dict_property :: descriptor where
  "as_dict_property =
     \<lparr>d_get = (\<lambda>d. case read_columns d user_columns of
                      Inl e \<Rightarrow> Inl e
                    | Inr items \<Rightarrow> Inr (PDict items)),
      d_set = (\<lambda>d v. Inl AttributeError)\<rparr>"

definition class_slot :: descriptor where
  "class_slot =
     \<lparr>d_get = (\<lambda>d. Inr (PObject ''User'')),
      d_set = (\<lambda>d v. if v = PObject ''User'' then Inr d else Inl TypeError)\<rparr>"

fun string_items :: "(pyval \<times> pyval) list \<Rightarrow> (string \<times> pyval) list" where
  "string_items [] = []"
| "string_items ((PStr k, v) # kvs) = (k, v) # string_items kvs"
| "string_items (kv # kvs) = string_items kvs"

definition dict_slot :: descriptor where
  "dict_slot =
     \<lparr>d_get = (\<lambda>d. Inr (PDict (map (\<lambda>kv. (PStr (fst kv), snd kv)) d))),
      d_set = (\<lambda>d v. case v of PDict kvs \<Rightarrow> Inr (string_items kvs) | _ \<Rightarrow> Inl TypeError)\<rparr>"

definition weakref_slot :: descriptor where
  "weakref_slot = \<lparr>d_get = (\<lambda>d. Inr PNone), d_set = (\<lambda>d v. Inl AttributeError)\<rparr>"

text \<open>
  The other names of the class are ordinary objects: what \<open>object\<close> gives every class,
  and what the declarative base and \<open>Model\<close> add.
\<close>

definition User :: model_class where
  "User = \<lparr>mc_name = ''User'',
           mc_columns = user_columns,
           mc_descriptors = [(''as_dict'', as_dict_property), (''__class__'', class_slot),
                             (''__dict__'', dict_slot), (''__weakref__'', weakref_slot)],
           mc_plain = [''__abstract__'', ''__delattr__'', ''__dir__'', ''__doc__'', ''__eq__'',
                       ''__format__'', ''__ge__'', ''__getattribute__'', ''__getstate__'',
                       ''__gt__'', ''__hash__'', ''__init__'', ''__init_subclass__'', ''__le__'',
                       ''__lt__'', ''__mapper__'', ''__module__'', ''__ne__'', ''__new__'',
                       ''__reduce__'', ''__reduce_ex__'', ''__repr__'', ''__setattr__'',
                       ''__sizeof__'', ''__str__'', ''__subclasshook__'', ''__table__'',
                       ''__table_args__'', ''__tablename__'', ''_sa_class_manager'',
                       ''_sa_registry'', ''metadata'', ''registry'']\<rparr>"

text \<open>The repository of users; its only join method is \<open>_join_tasks\<close>.\<close>

definition join_tasks :: "select_q \<Rightarrow> select_q" where
  "join_tasks q = q\<lparr>q_joins := q_joins q @ [''tasks'']\<rparr>"

definition user_repository :: repository where
  "user_repository = \<lparr>repo_model_class = User, join_methods = [''tasks'' \<mapsto> join_tasks]\<rparr>"

text \<open>The user of the row with this \<open>id\<close> and \<open>name\<close>, as the session loads it.\<close>

definition user :: "int \<Rightarrow> string \<Rightarrow> model" where
  "user i n =
     \<lparr>model_cls = User,
      model_dict = [(''_sa_instance_state'', InstanceState), (''id'', PInt i), (''name'', PStr n),
                    (''status'', PStr ''active'')],
      model_identity = PInt i\<rparr>"

definition user_table :: "model list" where
  "user_table = [user 1 ''ann'', user 2 ''bob'', user 3 ''bob'']"

text \<open>A user that the constructor has built, with these attributes set on it.\<close>

definition new_user :: "(string \<times> pyval) list \<Rightarrow> model" where
  "new_user d =
     \<lparr>model_cls = User, model_dict = (''_sa_instance_state'', InstanceState) # d,
      model_identity = PNone\<rparr>"

text \<open>
  A session over this table, with \<open>id\<close> as the primary key, not generated by the
  database, and the other columns nullable; it does not expire objects on commit.
  \<^item> \<open>add\<close> and \<open>delete\<close> look for the state of the object first: \<open>UnmappedInstanceError\<close>
    without one, \<open>AttributeError\<close> when something else is in its place. \<open>delete\<close> raises
    \<open>InvalidRequestError\<close> for an object that is not persistent.
  \<^item> \<open>commit\<close> after one \<open>add\<close> flushes the object: \<open>DBAPIError\<close> when the value of a column
    is not of its type, \<open>IntegrityError\<close> when the \<open>id\<close> is \<open>None\<close>, or is not the object's
    own and is taken by a row of the table; otherwise the object has the declared
    defaults of the columns that were not set and is persistent under its \<open>id\<close>.
  \<^item> Queries are answered from the table.
  The fragment ends there: a query after an \<open>add\<close>, a \<open>delete\<close> or a \<open>commit\<close>, and a
  \<open>commit\<close> after anything but queries and one \<open>add\<close>, raise \<open>DBAPIError\<close>.
\<close>

fun is_query :: "session_call \<Rightarrow> bool" where
  "is_query (Scalars q) = True"
| "is_query (Execute q) = True"
| "is_query c = False"

definition state_error :: "model \<Rightarrow> error option" where
  "state_error m =
     (case map_of (model_dict m) ''_sa_instance_state'' of
        None \<Rightarrow> Some UnmappedInstanceError
      | Some st \<Rightarrow> if st = InstanceState then None else Some AttributeError)"

definition typed :: "model \<Rightarrow> bool" where
  "typed m = list_all (\<lambda>c. binds (col_type c) (column_value m (col_key c)))
                      (mc_columns (model_cls m))"

definition id_taken :: "model \<Rightarrow> bool" where
  "id_taken m =
     (column_value m ''id'' \<noteq> model_identity m
      \<and> column_value m ''id'' \<in> set (map (\<lambda>r. column_value r ''id'') user_table))"

definition flush_error :: "model \<Rightarrow> error option" where
  "flush_error m =
     (if \<not> typed m then Some (SessionError ''DBAPIError'')
      else if column_value m ''id'' = PNone \<or> id_taken m then Some (SessionError ''IntegrityError'')
      else None)"

definition fill_defaults :: "model \<Rightarrow> model" where
  "fill_defaults m =
     m\<lparr>model_dict := model_dict m @
         map (\<lambda>c. (col_key c, col_default c))
           (filter (\<lambda>c. map_of (model_dict m) (col_key c) = None \<and> col_default c \<noteq> PNone)
              (mc_columns (model_cls m))),
       model_identity := column_value m ''id''\<rparr>"

definition users :: session where
  "users =
     \<lparr>add_raises = (\<lambda>h m. state_error m),
      delete_raises = (\<lambda>h m. case state_error m of
                               Some e \<Rightarrow> Some e
                             | None \<Rightarrow> if model_identity m = PNone
                                       then Some (SessionError ''InvalidRequestError'') else None),
      commit_raises = (\<lambda>h. case filter (\<lambda>c. \<not> is_query c) h of
                             [] \<Rightarrow> None
                           | [Add m] \<Rightarrow> flush_error m
                           | _ \<Rightarrow> Some (SessionError ''DBAPIError'')),
      scalars_result = (\<lambda>h q. if list_all is_query h then memory_select user_table q
                                else Inl (SessionError ''DBAPIError'')),
      execute_result = (\<lambda>h q. if list_all is_query h then memory_select user_table q
                                else Inl (SessionError ''DBAPIError'')),
      after_commit = (\<lambda>h m. fill_defaults m),
      calls = []\<rparr>"

section \<open>Auxiliary facts\<close>

subsection \<open>Attributes\<close>


lemma find_column_None: "(find_column mc k = None) = (k \<notin> set (column_keys mc))"
  by (auto simp add: find_column_def column_keys_def find_None_iff)

lemma setattr_cls: "setattr m k v = Inr m' \<Longrightarrow> model_cls m' = model_cls m"
  by (auto simp add: setattr_def split: option.splits sum.splits if_splits)

lemma has_state_new: "has_state (new_instance mc)"
  by (simp add: has_state_def new_instance_def)

lemma has_state_update:
  "k \<noteq> ''_sa_instance_state'' \<Longrightarrow>
   has_state (m\<lparr>model_dict := AList.update k v (model_dict m)\<rparr>) = has_state m"
  by (simp add: has_state_def update_conv')

lemma setattr_column:
  "k \<in> set (column_keys (model_cls m)) \<Longrightarrow> has_state m \<Longrightarrow>
   setattr m k v = Inr (m\<lparr>model_dict := AList.update k v (model_dict m)\<rparr>)"
  by (cases "find_column (model_cls m) k") (simp_all add: setattr_def find_column_None)


lemma column_get_state:
  "has_state m \<Longrightarrow> column_get (model_dict m) k = Inr (column_value m k)"
  by (simp add: column_get_def column_value_def has_state_def split: option.splits)

lemma column_hasattr: "k \<in> set (column_keys mc) \<Longrightarrow> class_hasattr mc k"
  by (cases "find_column mc k") (simp_all add: class_hasattr_def class_getattr_def find_column_None)

lemma getattr_column:
  "k \<in> set (column_keys (model_cls m)) \<Longrightarrow> has_state m \<Longrightarrow>
   getattr m k = Inr (column_value m k)"
  by (cases "find_column (model_cls m) k")
    (simp_all add: getattr_def find_column_None column_get_state)


subsection \<open>The constructor\<close>

lemma constructor_cls: "declarative_constructor m kwargs = Inr m' \<Longrightarrow> model_cls m' = model_cls m"
proof (induction kwargs arbitrary: m)
  case Nil
  then show ?case by simp
next
  case (Cons kv kwargs)
  obtain k v where kv: "kv = (k, v)" by (cases kv) auto
  from Cons.prems obtain m1 where m1: "setattr m k v = Inr m1"
    "declarative_constructor m1 kwargs = Inr m'"
    by (auto simp add: kv split: if_splits sum.splits)
  from Cons.IH [OF m1(2)] setattr_cls [OF m1(1)] show ?case by simp
qed

lemma constructor_append:
  "declarative_constructor m (xs @ ys) =
     (case declarative_constructor m xs of
        Inl e \<Rightarrow> Inl e
      | Inr m' \<Rightarrow> declarative_constructor m' ys)"
  by (induction xs arbitrary: m) (auto split: sum.splits)

text \<open>A keyword that the class does not have makes the constructor fail.\<close>

lemma constructor_fails:
  "k \<in> fst ` set kwargs \<Longrightarrow> \<not> class_hasattr (model_cls m) k \<Longrightarrow>
   \<exists>e. declarative_constructor m kwargs = Inl e"
proof (induction kwargs arbitrary: m)
  case Nil
  then show ?case by simp
next
  case (Cons kv kwargs)
  obtain k1 v1 where kv: "kv = (k1, v1)" by (cases kv) auto
  show ?case
  proof (cases "class_hasattr (model_cls m) k1")
    case False
    then show ?thesis by (simp add: kv)
  next
    case attr: True
    show ?thesis
    proof (cases "setattr m k1 v1")
      case (Inl e)
      then show ?thesis by (simp add: kv attr)
    next
      case (Inr m1)
      from attr Cons.prems have "k \<noteq> k1" by auto
      with Cons.prems have "k \<in> fst ` set kwargs" by (auto simp add: kv)
      moreover from Cons.prems setattr_cls [OF Inr] have "\<not> class_hasattr (model_cls m1) k"
        by simp
      ultimately have "\<exists>e. declarative_constructor m1 kwargs = Inl e" by (rule Cons.IH)
      then show ?thesis by (simp add: kv attr Inr)
    qed
  qed
qed

text \<open>Keywords that are column attributes, each once, are all stored.\<close>

lemma constructor_columns:
  "distinct (map fst kwargs) \<Longrightarrow>
   list_all (\<lambda>kv. fst kv \<in> set (column_keys (model_cls m))) kwargs \<Longrightarrow>
   has_state m \<Longrightarrow> ''_sa_instance_state'' \<notin> set (column_keys (model_cls m)) \<Longrightarrow>
   \<exists>m'. declarative_constructor m kwargs = Inr m' \<and> model_cls m' = model_cls m
      \<and> (\<forall>c. map_of (model_dict m') c =
            (case map_of kwargs c of None \<Rightarrow> map_of (model_dict m) c | Some v \<Rightarrow> Some v))"
proof (induction kwargs arbitrary: m)
  case Nil
  then show ?case by simp
next
  case (Cons kv kwargs)
  obtain k1 v1 where kv: "kv = (k1, v1)" by (cases kv) auto
  let ?m1 = "m\<lparr>model_dict := AList.update k1 v1 (model_dict m)\<rparr>"
  from Cons.prems have d: "distinct (map fst kwargs)" and k1: "k1 \<notin> fst ` set kwargs"
    and col: "k1 \<in> set (column_keys (model_cls m))"
    and st: "has_state m" and ns: "''_sa_instance_state'' \<notin> set (column_keys (model_cls m))"
    by (auto simp add: kv)
  from col ns have "k1 \<noteq> ''_sa_instance_state''" by auto
  then have st1: "has_state ?m1" using st by (simp add: has_state_update)
  from ns have ns1: "''_sa_instance_state'' \<notin> set (column_keys (model_cls ?m1))" by simp
  from Cons.prems have "list_all (\<lambda>kv. fst kv \<in> set (column_keys (model_cls ?m1))) kwargs"
    by simp
  from Cons.IH [OF d this st1 ns1] obtain m' where m':
    "declarative_constructor ?m1 kwargs = Inr m'" "model_cls m' = model_cls m"
    "\<forall>c. map_of (model_dict m') c =
        (case map_of kwargs c of None \<Rightarrow> map_of (model_dict ?m1) c | Some v \<Rightarrow> Some v)"
    by auto
  from k1 have none: "map_of kwargs k1 = None" by (simp add: map_of_eq_None_iff)
  have "declarative_constructor m (kv # kwargs) = Inr m'"
    by (simp add: kv column_hasattr [OF col] setattr_column [OF col st] m'(1))
  moreover have "\<forall>c. map_of (model_dict m') c =
      (case map_of (kv # kwargs) c of None \<Rightarrow> map_of (model_dict m) c | Some v \<Rightarrow> Some v)"
    using m'(3) none by (auto simp add: kv update_conv' split: option.splits)
  ultimately show ?case using m'(2) by blast
qed

lemma columns_dict_own_names:
  "list_all (\<lambda>c. col_name c = col_key c \<and> col_key c \<in> set (column_keys (model_cls m))) cs \<Longrightarrow>
   has_state m \<Longrightarrow>
   columns_dict m cs = Inr (map (\<lambda>c. (col_name c, column_value m (col_key c))) cs)"
  by (induction cs) (simp_all add: getattr_column)

subsection \<open>The loop of update\<close>


lemma update_after_loop:
  "update_attributes model attributes = Inr m' \<Longrightarrow>
   update self model attributes s =
     (case add_raises s (calls s) m' of
        Some e \<Rightarrow> (Inl e, record_call (Add m') s)
      | None \<Rightarrow>
          (case commit_raises s (calls s @ [Add m']) of
             Some e \<Rightarrow> (Inl e, record_call Commit (record_call (Add m') s))
           | None \<Rightarrow> (Inr (after_commit s (calls s @ [Add m', Commit]) m'),
                      record_call Commit (record_call (Add m') s))))"
  by (simp add: update_def session_add_def session_commit_def raised_def record_call_def
      split: option.splits)

subsection \<open>Queries and their results\<close>


lemma base_query_join: "base_query self join' None = maybe_join self (select (repo_model_class self)) join'"
  by (simp add: base_query_def maybe_ordered_def split: sum.splits)

lemma base_query_type_error:
  "truthy j \<Longrightarrow> \<not> is_set j \<Longrightarrow> base_query self j order' = Inl TypeError"
  by (simp add: base_query_def maybe_join_def)

lemma reduce_joins:
  "reduce (add_join_to_query self) (map PStr names) q =
     (if list_all (\<lambda>x. join_methods self x \<noteq> None) names
      then Inr (fold (\<lambda>x. the (join_methods self x)) names q)
      else Inl AttributeError)"
  by (induction names arbitrary: q) (auto split: option.splits)


lemma all_unique_eq:
  "all_unique q s =
     ((case execute_result s (calls s) q of Inl e \<Rightarrow> Inl e | Inr rows \<Rightarrow> Inr (remdups rows)),
      record_call (Execute q) s)"
  by (simp add: all_unique_def session_execute_def split: sum.splits)







subsection \<open>Commits\<close>

lemma commits_record_call:
  "commits (record_call c s) = (if c = Commit then Suc (commits s) else commits s)"
  by (simp add: commits_def record_call_def)

lemma commits_create: "commits (snd (create self attributes s)) = commits s"
  by (simp add: create_def session_add_def commits_record_call
      split: sum.splits option.splits prod.splits)

lemma commits_delete: "commits (snd (delete self model s)) = commits s"
  by (simp add: delete_def session_delete_def commits_record_call)

lemma commits_all_scalars: "commits (snd (all_scalars q s)) = commits s"
  by (simp add: all_scalars_def session_scalars_def commits_record_call)

lemma commits_all_unique: "commits (snd (all_unique q s)) = commits s"
  by (simp add: all_unique_def session_execute_def commits_record_call split: sum.splits)

lemma commits_one_scalar: "commits (snd (one_scalar q s)) = commits s"
  by (simp add: one_scalar_def session_scalars_def commits_record_call
      split: sum.splits list.splits)

lemma commits_get_all:
  "commits (snd (get_all self skip limit join' where' order_by s)) = commits s"
  by (simp add: get_all_def commits_all_scalars commits_all_unique split: sum.splits)

lemma commits_get_by: "commits (snd (get_by self field value join' unique s)) = commits s"
  by (simp add: get_by_def wrap_def commits_all_scalars commits_all_unique commits_one_scalar
      split: sum.splits)

lemma commits_run_call: "\<not> is_update c \<Longrightarrow> commits (run_call self c s) = commits s"
  by (cases c) (simp_all add: commits_create commits_delete commits_get_all commits_get_by)

lemma commits_run_calls:
  "list_all (\<lambda>c. \<not> is_update c) cs \<Longrightarrow> commits (run_calls self cs s) = commits s"
  unfolding run_calls_def
  by (induction cs arbitrary: s) (simp_all add: commits_run_call)

subsection \<open>The cache of the health check\<close>

lemma health_check_step:
  assumes "cache_ok c"
  shows "health_check now request qp c =
      (\<lparr>status_code = 200, body = [(''status'', ''ok'')]\<rparr>,
       (case fresh c (''GET_HEALTH_CHECK'', test1 qp) 120 now of
          Some p \<Rightarrow> c
        | None \<Rightarrow> c((''GET_HEALTH_CHECK'', test1 qp) \<mapsto> ([(''status'', ''ok'')], now))))
    \<and> cache_ok (snd (health_check now request qp c))"
  using assms
  by (auto simp add: health_check_def cached_def fresh_def HealthCheck_get_def cache_ok_def Let_def
      split: option.splits prod.splits if_splits)

lemma serve_ok:
  "cache_ok c \<Longrightarrow>
   serve requests c
     = replicate (length requests) \<lparr>status_code = 200, body = [(''status'', ''ok'')]\<rparr>"
proof (induction requests arbitrary: c)
  case Nil
  then show ?case by simp
next
  case (Cons r requests)
  obtain now request qp where r: "r = (now, request, qp)" by (cases r) auto
  from health_check_step [OF Cons.prems, of now request qp] Cons.IH
  show ?case by (auto simp add: r split: prod.splits)
qed

subsection \<open>The users\<close>


lemma user_new:
  "new_model User [] = Inr (new_user [])"
  "new_model User [(''name'', PStr ''bob'')] = Inr (new_user [(''name'', PStr ''bob'')])"
  by (simp_all add: new_model_def new_instance_def new_user_def class_hasattr_def class_getattr_def
      find_column_def setattr_def has_state_def User_def user_columns_def)

lemma user_hasattr:
  "hasattr (user 1 ''ann'') ''name'' = Inr True"
  "hasattr (user 1 ''ann'') ''nickname'' = Inr False"
  "hasattr (user 1 ''ann'') ''as_dict'' = Inr True"
  by (simp_all add: hasattr_def getattr_def column_get_def find_column_def user_def User_def
      user_columns_def as_dict_property_def)

lemma user_update_loop:
  "update_attributes (user 1 ''ann'') [(''name'', PStr ''al''), (''nickname'', PStr ''a'')]
     = Inr (user 1 ''al'')"
proof -
  have a: "setattr (user 1 ''ann'') ''name'' (PStr ''al'') = Inr (user 1 ''al'')"
    by (simp add: setattr_def has_state_def find_column_def user_def User_def user_columns_def)
  have b: "hasattr (user 1 ''al'') ''nickname'' = Inr False"
    by (simp add: hasattr_def getattr_def find_column_def user_def User_def user_columns_def)
  show ?thesis by (simp add: user_hasattr a b)
qed











section \<open>The claims\<close>

subsection \<open>get_by with unique\<close>




subsection \<open>create with an unknown attribute\<close>

text \<open>
  Claim C2, amended. For every attributes mapping containing a key that is not an
  attribute of the model class, \<open>create(attributes)\<close> fails and the session is left as
  it was, so the model is not staged. The error is that of the first key, in the order
  of the mapping, that the constructor cannot take: \<open>TypeError\<close> when that key is not an
  attribute of the class, whatever comes after it, and the error of the assignment
  when that key is an attribute whose assignment is refused (\<open>AttributeError\<close> for
  \<open>as_dict\<close>, a property without a setter).
\<close>

theorem create_unknown_key:
  "(\<not> class_hasattr (repo_model_class self) k \<and> k \<in> fst ` set attributes \<longrightarrow>
      (\<exists>e. create self (Some attributes) s = (Inl e, s)))
   \<and> (\<not> class_hasattr (repo_model_class self) k \<and> new_model (repo_model_class self) pre = Inr m \<longrightarrow>
      create self (Some (pre @ (k, v) # post)) s = (Inl TypeError, s))
   \<and> (class_hasattr (repo_model_class self) k \<and> new_model (repo_model_class self) pre = Inr m
        \<and> setattr m k v = Inl e \<longrightarrow>
      create self (Some (pre @ (k, v) # post)) s = (Inl e, s))"
proof -
  let ?m0 = "new_instance (repo_model_class self)"
  have m0: "model_cls ?m0 = repo_model_class self" by (simp add: new_instance_def)
  have a: "\<not> class_hasattr (repo_model_class self) k \<and> k \<in> fst ` set attributes \<longrightarrow>
      (\<exists>e. create self (Some attributes) s = (Inl e, s))"
  proof
    assume h: "\<not> class_hasattr (repo_model_class self) k \<and> k \<in> fst ` set attributes"
    with constructor_fails [of k attributes ?m0] m0
    obtain e where "declarative_constructor ?m0 attributes = Inl e" by auto
    then have "create self (Some attributes) s = (Inl e, s)"
      by (simp add: create_def new_model_def)
    then show "\<exists>e. create self (Some attributes) s = (Inl e, s)" by blast
  qed
  have cls: "new_model (repo_model_class self) pre = Inr m \<Longrightarrow> model_cls m = repo_model_class self"
    using constructor_cls [of ?m0 pre m] m0 by (simp add: new_model_def)
  have b: "\<not> class_hasattr (repo_model_class self) k \<and> new_model (repo_model_class self) pre = Inr m \<longrightarrow>
      create self (Some (pre @ (k, v) # post)) s = (Inl TypeError, s)"
    using cls by (auto simp add: create_def new_model_def constructor_append)
  have c: "class_hasattr (repo_model_class self) k \<and> new_model (repo_model_class self) pre = Inr m
        \<and> setattr m k v = Inl e \<longrightarrow>
      create self (Some (pre @ (k, v) # post)) s = (Inl e, s)"
    using cls by (auto simp add: create_def new_model_def constructor_append)
  from a b c show ?thesis by blast
qed

text \<open>
  On the users: \<open>nickname\<close> before \<open>as_dict\<close> is a \<open>TypeError\<close>, \<open>as_dict\<close> before
  \<open>nickname\<close> an \<open>AttributeError\<close>.
\<close>

theorem create_unknown_key_witness:
  "\<not> class_hasattr (repo_model_class user_repository) ''nickname''
   \<and> class_hasattr (repo_model_class user_repository) ''as_dict''
   \<and> new_model (repo_model_class user_repository) [(''name'', PStr ''bob'')]
       = Inr (new_user [(''name'', PStr ''bob'')])
   \<and> create user_repository
        (Some [(''name'', PStr ''bob''), (''nickname'', PStr ''bobby''), (''as_dict'', PInt 0)]) users
       = (Inl TypeError, users)
   \<and> setattr (new_user [(''name'', PStr ''bob'')]) ''as_dict'' (PInt 0) = Inl AttributeError
   \<and> create user_repository
        (Some [(''name'', PStr ''bob''), (''as_dict'', PInt 0), (''nickname'', PStr ''bobby'')]) users
       = (Inl AttributeError, users)"
proof -
  have h: "\<not> class_hasattr (repo_model_class user_repository) ''nickname''"
    "class_hasattr (repo_model_class user_repository) ''as_dict''"
    by (simp_all add: class_hasattr_def class_getattr_def find_column_def user_repository_def
        User_def user_columns_def)
  have n: "new_model (repo_model_class user_repository) [(''name'', PStr ''bob'')]
       = Inr (new_user [(''name'', PStr ''bob'')])"
    by (simp add: user_new user_repository_def)
  have r: "setattr (new_user [(''name'', PStr ''bob'')]) ''as_dict'' (PInt 0) = Inl AttributeError"
    by (simp add: setattr_def new_user_def find_column_def User_def user_columns_def
        as_dict_property_def)
  from create_unknown_key [of user_repository "''nickname''" "[(''nickname'', PStr ''bobby'')]" users
      "[(''name'', PStr ''bob'')]" "new_user [(''name'', PStr ''bob'')]"
      "PStr ''bobby''" "[(''as_dict'', PInt 0)]" AttributeError]
    create_unknown_key [of user_repository "''as_dict''" "[(''nickname'', PStr ''bobby'')]" users
      "[(''name'', PStr ''bob'')]" "new_user [(''name'', PStr ''bob'')]"
      "PInt 0" "[(''nickname'', PStr ''bobby'')]" AttributeError]
    h n r
  show ?thesis by simp
qed

text \<open>
  The claim as stated fails on the class of the error: \<open>nickname\<close> is no field of
  \<open>User\<close>, and \<open>create\<close> fails with \<open>TypeError\<close>, which is no \<open>AttributeError\<close>.
\<close>

theorem create_unknown_key_counterexample:
  "''nickname'' \<notin> set (column_keys User)
   \<and> create user_repository (Some [(''nickname'', PStr ''bobby'')]) users = (Inl TypeError, users)
   \<and> fst (create user_repository (Some [(''nickname'', PStr ''bobby'')]) users) \<noteq> Inl AttributeError"
  by (simp add: create_def new_model_def new_instance_def class_hasattr_def class_getattr_def
      find_column_def column_keys_def User_def user_columns_def user_repository_def)

subsection \<open>The where mapping of get_all\<close>



subsection \<open>update\<close>




subsection \<open>Who commits\<close>

text \<open>
  Claim C5. \<open>create\<close> builds the model and calls \<open>add\<close> with it, once, and nothing
  else on the session (and nothing at all when the constructor raises); \<open>delete\<close>
  calls \<open>delete\<close> with the model, once, and nothing else; both return what the session
  raises, if it does. \<open>update\<close>, once its loop is through, calls \<open>add\<close> and then,
  unless \<open>add\<close> raises, \<open>commit\<close>. After any sequence of repository calls with no
  \<open>update\<close> among them (creates, deletes and queries) the session has seen as many
  commits as before: none when it had seen none.
\<close>

theorem only_update_commits:
  "create self None s
     = ((case add_raises s (calls s) (new_instance (repo_model_class self)) of
           None \<Rightarrow> Inr (new_instance (repo_model_class self))
         | Some e \<Rightarrow> Inl e),
        record_call (Add (new_instance (repo_model_class self))) s)
   \<and> (new_model (repo_model_class self) attributes = Inr m \<longrightarrow>
        create self (Some attributes) s
          = ((case add_raises s (calls s) m of None \<Rightarrow> Inr m | Some e \<Rightarrow> Inl e),
             record_call (Add m) s))
   \<and> (new_model (repo_model_class self) attributes = Inl e \<longrightarrow>
        create self (Some attributes) s = (Inl e, s))
   \<and> delete self model s
       = ((case delete_raises s (calls s) model of None \<Rightarrow> Inr () | Some e \<Rightarrow> Inl e),
          record_call (Delete model) s)
   \<and> (update_attributes model attributes' = Inr m' \<longrightarrow>
        calls (snd (update self model attributes' s))
          = calls s @ (if add_raises s (calls s) m' = None then [Add m', Commit] else [Add m']))
   \<and> (update_attributes model attributes' = Inl e' \<longrightarrow>
        update self model attributes' s = (Inl e', s))
   \<and> (list_all (\<lambda>c. \<not> is_update c) cs \<longrightarrow> commits (run_calls self cs s) = commits s)"
proof -
  have a: "create self None s
     = ((case add_raises s (calls s) (new_instance (repo_model_class self)) of
           None \<Rightarrow> Inr (new_instance (repo_model_class self))
         | Some e \<Rightarrow> Inl e),
        record_call (Add (new_instance (repo_model_class self))) s)"
    by (simp add: create_def new_model_def session_add_def raised_def split: option.splits)
  have b: "new_model (repo_model_class self) attributes = Inr m \<longrightarrow>
        create self (Some attributes) s
          = ((case add_raises s (calls s) m of None \<Rightarrow> Inr m | Some e \<Rightarrow> Inl e),
             record_call (Add m) s)"
    by (simp add: create_def session_add_def raised_def split: option.splits)
  have c: "new_model (repo_model_class self) attributes = Inl e \<longrightarrow>
        create self (Some attributes) s = (Inl e, s)"
    by (simp add: create_def)
  have d: "delete self model s
       = ((case delete_raises s (calls s) model of None \<Rightarrow> Inr () | Some e \<Rightarrow> Inl e),
          record_call (Delete model) s)"
    by (simp add: delete_def session_delete_def raised_def)
  have u: "update_attributes model attributes' = Inr m' \<longrightarrow>
        calls (snd (update self model attributes' s))
          = calls s @ (if add_raises s (calls s) m' = None then [Add m', Commit] else [Add m'])"
    by (auto simp add: update_after_loop record_call_def split: option.splits)
  have u': "update_attributes model attributes' = Inl e' \<longrightarrow>
        update self model attributes' s = (Inl e', s)"
    by (simp add: update_def)
  from a b c d u u' commits_run_calls [of cs self s] show ?thesis by blast
qed

text \<open>
  On the users session: \<open>create()\<close> and \<open>delete\<close> of user 1 each make their one call;
  \<open>delete\<close> of an object that was never persisted makes it too and returns the session's
  error; \<open>update\<close> makes \<open>add\<close> and \<open>commit\<close>; four calls with no \<open>update\<close> among them leave
  the session at no commit.
\<close>

theorem only_update_commits_witness:
  "create user_repository None users = (Inr (new_user []), record_call (Add (new_user [])) users)
   \<and> calls (record_call (Add (new_user [])) users) = [Add (new_user [])]
   \<and> delete user_repository (user 1 ''ann'') users
       = (Inr (), record_call (Delete (user 1 ''ann'')) users)
   \<and> delete user_repository (new_user [(''name'', PStr ''cy'')]) users
       = (Inl (SessionError ''InvalidRequestError''),
          record_call (Delete (new_user [(''name'', PStr ''cy'')])) users)
   \<and> calls (record_call (Delete (user 1 ''ann'')) users) = [Delete (user 1 ''ann'')]
   \<and> update_attributes (user 1 ''ann'') [(''name'', PStr ''al''), (''nickname'', PStr ''a'')]
       = Inr (user 1 ''al'')
   \<and> calls (snd (update user_repository (user 1 ''ann'')
        [(''name'', PStr ''al''), (''nickname'', PStr ''a'')] users))
       = [Add (user 1 ''al''), Commit]
   \<and> list_all (\<lambda>c. \<not> is_update c)
        [CallCreate None, CallDelete (user 1 ''ann''), CallCreate (Some [(''name'', PStr ''cy'')]),
         CallGetBy ''name'' (PStr ''bob'') PNone False]
   \<and> commits (run_calls user_repository
        [CallCreate None, CallDelete (user 1 ''ann''), CallCreate (Some [(''name'', PStr ''cy'')]),
         CallGetBy ''name'' (PStr ''bob'') PNone False] users) = 0"
proof -
  have r: "repo_model_class user_repository = User" by (simp add: user_repository_def)
  have n: "new_instance User = new_user []" by (simp add: new_instance_def new_user_def)
  have s: "calls users = []" "add_raises users h (user i n) = None"
    "add_raises users h (new_user d) = None"
    "delete_raises users h (user i n) = None"
    "delete_raises users h (new_user d) = Some (SessionError ''InvalidRequestError'')"
    for h i n d
    by (simp_all add: users_def state_error_def user_def new_user_def)
  have c0: "commits users = 0" by (simp add: commits_def users_def)
  note t = only_update_commits [of user_repository users "[]" "new_user []"
      TypeError "user 1 ''ann''" "[(''name'', PStr ''al''), (''nickname'', PStr ''a'')]" "user 1 ''al''"
      TypeError
      "[CallCreate None, CallDelete (user 1 ''ann''), CallCreate (Some [(''name'', PStr ''cy'')]),
         CallGetBy ''name'' (PStr ''bob'') PNone False]"]
  from t have "create user_repository None users
      = (Inr (new_user []), record_call (Add (new_user [])) users)"
    by (simp add: r n s del: update_attributes.simps)
  moreover have "calls (record_call (Add (new_user [])) users) = [Add (new_user [])]"
    by (simp add: s record_call_def)
  moreover from t have "delete user_repository (user 1 ''ann'') users
       = (Inr (), record_call (Delete (user 1 ''ann'')) users)"
    by (simp add: s del: update_attributes.simps)
  moreover have "delete user_repository (new_user [(''name'', PStr ''cy'')]) users
       = (Inl (SessionError ''InvalidRequestError''),
          record_call (Delete (new_user [(''name'', PStr ''cy'')])) users)"
    by (simp add: delete_def session_delete_def raised_def s)
  moreover have "calls (record_call (Delete (user 1 ''ann'')) users) = [Delete (user 1 ''ann'')]"
    by (simp add: s record_call_def)
  moreover from t user_update_loop
  have "calls (snd (update user_repository (user 1 ''ann'')
        [(''name'', PStr ''al''), (''nickname'', PStr ''a'')] users))
       = [Add (user 1 ''al''), Commit]"
    by (simp add: s del: update_attributes.simps)
  moreover have l: "list_all (\<lambda>c. \<not> is_update c)
        [CallCreate None, CallDelete (user 1 ''ann''), CallCreate (Some [(''name'', PStr ''cy'')]),
         CallGetBy ''name'' (PStr ''bob'') PNone False]"
    by simp
  moreover from t l c0 have "commits (run_calls user_repository
        [CallCreate None, CallDelete (user 1 ''ann''), CallCreate (Some [(''name'', PStr ''cy'')]),
         CallGetBy ''name'' (PStr ''bob'') PNone False] users) = 0"
    by (simp del: update_attributes.simps)
  ultimately show ?thesis using user_update_loop by blast
qed

subsection \<open>The join argument\<close>

text \<open>
  Claim C6, amended. For every \<open>join_\<close> argument that is truthy (neither \<open>None\<close> nor
  empty) and not a set, a list such as \<open>['x']\<close> for one, \<open>_maybe_join\<close> fails with
  \<open>TypeError\<close>, and so does every \<open>get_all\<close> and \<open>get_by\<close> call given it, before the
  session is touched.
\<close>

theorem truthy_non_set_join_type_error:
  "truthy join' \<Longrightarrow> \<not> is_set join' \<Longrightarrow>
     maybe_join self q join' = Inl TypeError
   \<and> get_all self skip limit join' where' order_by s = (Inl TypeError, s)
   \<and> get_by self field value join' unique s = (Inl TypeError, s)"
  by (simp add: maybe_join_def get_all_def get_by_def base_query_type_error)

theorem truthy_non_set_join_type_error_witness:
  "truthy (PList [PStr ''x'']) \<and> \<not> is_set (PList [PStr ''x''])
   \<and> maybe_join user_repository (select User) (PList [PStr ''x'']) = Inl TypeError
   \<and> get_all user_repository 0 100 (PList [PStr ''x'']) None None users = (Inl TypeError, users)
   \<and> get_by user_repository ''name'' (PStr ''bob'') (PList [PStr ''x'']) True users
       = (Inl TypeError, users)"
  using truthy_non_set_join_type_error [of "PList [PStr ''x'']" user_repository "select User"
      0 100 None None users "''name''" "PStr ''bob''" True]
  by simp

text \<open>
  The claim as stated, for every argument that is not a set, fails on the empty list:
  it is no set, \<open>_maybe_join\<close> returns the query unchanged, and \<open>get_all\<close> returns the
  rows.
\<close>

theorem non_set_join_counterexample:
  "\<not> is_set (PList [])
   \<and> maybe_join user_repository (select User) (PList []) = Inr (select User)
   \<and> fst (get_all user_repository 0 100 (PList []) None None users) = Inr user_table"
proof -
  have r: "repo_model_class user_repository = User" by (simp add: user_repository_def)
  have e: "execute_result users (calls users) ((select User)\<lparr>q_offset := Some 0, q_limit := Some 100\<rparr>)
      = Inr user_table"
    by (simp add: users_def memory_select_def joined_def select_def user_table_def)
  have d: "remdups user_table = user_table"
    by (simp add: user_table_def user_def)
  have "fst (get_all user_repository 0 100 (PList []) None None users) = Inr user_table"
    by (simp add: get_all_def base_query_join maybe_join_def r apply_where_def apply_order_by_def
        all_unique_eq e d)
  then show ?thesis by (simp add: maybe_join_def)
qed

text \<open>
  Claim C7. For every falsy \<open>join_\<close> argument, \<open>None\<close>, the empty set and the empty list
  among them, \<open>_maybe_join\<close> returns the query unchanged and raises nothing: the test
  for emptiness comes before the test for the type.
\<close>

theorem maybe_join_falsy:
  "\<not> truthy join' \<Longrightarrow> maybe_join self q join' = Inr q"
  by (simp add: maybe_join_def)

theorem maybe_join_falsy_witness:
  "\<not> truthy PNone \<and> \<not> truthy (PSet []) \<and> \<not> truthy (PList []) \<and> \<not> is_set (PList [])
   \<and> maybe_join user_repository (select User) PNone = Inr (select User)
   \<and> maybe_join user_repository (select User) (PSet []) = Inr (select User)
   \<and> maybe_join user_repository (select User) (PList []) = Inr (select User)"
  using maybe_join_falsy [of PNone user_repository "select User"]
    maybe_join_falsy [of "PSet []" user_repository "select User"]
    maybe_join_falsy [of "PList []" user_repository "select User"]
  by simp

text \<open>
  Claim C8. For a set of join names as \<open>join_\<close>: when the repository defines no
  \<open>_join_x\<close> method for one of its names \<open>x\<close>, \<open>_maybe_join\<close> fails with
  \<open>AttributeError\<close>; when it defines one for each name, the methods are applied to the
  query one after the other, in the order the set yields its names.
\<close>

theorem maybe_join_dispatch:
  "(x \<in> set names \<and> join_methods self x = None \<longrightarrow>
      maybe_join self q (PSet (map PStr names)) = Inl AttributeError)
   \<and> (list_all (\<lambda>x. join_methods self x \<noteq> None) names \<longrightarrow>
      maybe_join self q (PSet (map PStr names))
        = Inr (fold (\<lambda>x. the (join_methods self x)) names q))"
proof -
  have m: "maybe_join self q (PSet (map PStr names)) =
      reduce (add_join_to_query self) (map PStr names) q"
    by (cases names) (simp_all add: maybe_join_def)
  show ?thesis
    unfolding m reduce_joins by (auto simp add: list_all_iff)
qed

theorem maybe_join_dispatch_witness:
  "''x'' \<in> set [''tasks'', ''x''] \<and> join_methods user_repository ''x'' = None
   \<and> maybe_join user_repository (select User) (PSet [PStr ''tasks'', PStr ''x''])
       = Inl AttributeError
   \<and> list_all (\<lambda>x. join_methods user_repository x \<noteq> None) [''tasks'']
   \<and> maybe_join user_repository (select User) (PSet [PStr ''tasks''])
       = Inr (join_tasks (select User))"
  using maybe_join_dispatch [of "''x''" "[''tasks'', ''x'']" user_repository "select User"]
    maybe_join_dispatch [of "''x''" "[''tasks'']" user_repository "select User"]
  by (simp add: user_repository_def)

subsection \<open>create and as_dict\<close>

text \<open>
  Claim C9, amended. For every model class whose columns are each mapped under the
  attribute of their own name (none of them under \<open>_sa_instance_state\<close>, which is the
  ORM's), and every attributes mapping (a dict, each key once) whose keys are columns of
  the model, \<open>create\<close> builds a model and calls \<open>add\<close> with it, returning the model
  unless \<open>add\<close> raises; the \<open>as_dict\<close> of that model maps every declared column name, in
  table order, to its current value: the supplied value for a supplied column, \<open>None\<close>
  for every other one. Declared defaults are not in it.
\<close>

theorem create_as_dict:
  assumes "distinct (map fst attributes)"
    and "list_all (\<lambda>kv. fst kv \<in> set (column_keys (repo_model_class self))) attributes"
    and "list_all (\<lambda>c. col_name c = col_key c \<and> col_key c \<noteq> ''_sa_instance_state'')
           (mc_columns (repo_model_class self))"
  shows "\<exists>m. new_model (repo_model_class self) attributes = Inr m
    \<and> create self (Some attributes) s
        = ((case add_raises s (calls s) m of None \<Rightarrow> Inr m | Some e \<Rightarrow> Inl e),
           record_call (Add m) s)
    \<and> as_dict m = Inr (map (\<lambda>c. (col_name c, case map_of attributes (col_key c) of
                                                None \<Rightarrow> PNone | Some v \<Rightarrow> v))
                         (mc_columns (repo_model_class self)))"
proof -
  let ?mc = "repo_model_class self"
  let ?m0 = "new_instance ?mc"
  have m0: "model_cls ?m0 = ?mc" "model_dict ?m0 = [(''_sa_instance_state'', InstanceState)]"
    by (simp_all add: new_instance_def)
  from assms(3) have ns: "''_sa_instance_state'' \<notin> set (column_keys ?mc)"
    by (auto simp add: list_all_iff column_keys_def)
  from assms(2) have "list_all (\<lambda>kv. fst kv \<in> set (column_keys (model_cls ?m0))) attributes"
    by (simp add: m0)
  moreover from ns have "''_sa_instance_state'' \<notin> set (column_keys (model_cls ?m0))"
    by (simp add: m0)
  ultimately obtain m where m:
    "declarative_constructor ?m0 attributes = Inr m" "model_cls m = model_cls ?m0"
    "\<forall>c. map_of (model_dict m) c =
        (case map_of attributes c of None \<Rightarrow> map_of (model_dict ?m0) c | Some v \<Rightarrow> Some v)"
    using constructor_columns [OF assms(1) _ has_state_new, of ?mc] by blast
  have n: "new_model ?mc attributes = Inr m"
    by (simp add: new_model_def m(1))
  have c: "create self (Some attributes) s
        = ((case add_raises s (calls s) m of None \<Rightarrow> Inr m | Some e \<Rightarrow> Inl e),
           record_call (Add m) s)"
    by (simp add: create_def n session_add_def raised_def split: option.splits)
  have "map_of attributes ''_sa_instance_state'' = None"
  proof (rule ccontr)
    assume "map_of attributes ''_sa_instance_state'' \<noteq> None"
    then obtain v where "(''_sa_instance_state'', v) \<in> set attributes"
      by (auto dest: map_of_SomeD)
    with assms(2) ns show False by (auto simp add: list_all_iff)
  qed
  with m(3) have st: "has_state m" by (simp add: has_state_def m0)
  from assms(3) have "list_all (\<lambda>c. col_name c = col_key c \<and> col_key c \<in> set (column_keys (model_cls m)))
      (mc_columns ?mc)"
    by (simp add: m(2) m0 list_all_iff column_keys_def)
  from columns_dict_own_names [OF this st]
  have "as_dict m = Inr (map (\<lambda>c. (col_name c, column_value m (col_key c))) (mc_columns ?mc))"
    by (simp add: as_dict_def m(2) m0)
  also have "map (\<lambda>c. (col_name c, column_value m (col_key c))) (mc_columns ?mc)
      = map (\<lambda>c. (col_name c, case map_of attributes (col_key c) of
                                 None \<Rightarrow> PNone | Some v \<Rightarrow> v)) (mc_columns ?mc)"
    using assms(3) by (auto simp add: column_value_def m(3) m0 list_all_iff split: option.splits)
  finally show ?thesis using n c by blast
qed

theorem create_as_dict_witness:
  "distinct (map fst [(''name'', PStr ''bob'')])
   \<and> list_all (\<lambda>kv. fst kv \<in> set (column_keys (repo_model_class user_repository)))
        [(''name'', PStr ''bob'')]
   \<and> list_all (\<lambda>c. col_name c = col_key c \<and> col_key c \<noteq> ''_sa_instance_state'')
        (mc_columns (repo_model_class user_repository))
   \<and> create user_repository (Some [(''name'', PStr ''bob'')]) users
       = (Inr (new_user [(''name'', PStr ''bob'')]),
          record_call (Add (new_user [(''name'', PStr ''bob'')])) users)
   \<and> as_dict (new_user [(''name'', PStr ''bob'')])
       = Inr [(''id'', PNone), (''name'', PStr ''bob''), (''status'', PNone)]"
proof -
  have h1: "distinct (map fst [(''name'', PStr ''bob'')])" by simp
  have h2: "list_all (\<lambda>kv. fst kv \<in> set (column_keys (repo_model_class user_repository)))
        [(''name'', PStr ''bob'')]"
    by (simp add: column_keys_def User_def user_columns_def user_repository_def)
  have h3: "list_all (\<lambda>c. col_name c = col_key c \<and> col_key c \<noteq> ''_sa_instance_state'')
        (mc_columns (repo_model_class user_repository))"
    by (simp add: User_def user_columns_def user_repository_def)
  have n: "new_model (repo_model_class user_repository) [(''name'', PStr ''bob'')]
      = Inr (new_user [(''name'', PStr ''bob'')])"
    by (simp add: user_new user_repository_def)
  have a: "add_raises users (calls users) (new_user [(''name'', PStr ''bob'')]) = None"
    by (simp add: users_def state_error_def new_user_def)
  have cols: "mc_columns (repo_model_class user_repository) = user_columns"
    by (simp add: User_def user_repository_def)
  from create_as_dict [OF h1 h2 h3, of users] n a h1 h2 h3 show ?thesis
    by (simp add: cols user_columns_def)
qed

text \<open>
  The claim as stated fails where a column declares a default: \<open>status\<close> defaults to
  \<open>'active'\<close>, and the \<open>as_dict\<close> of \<open>create({'name': 'bob'})\<close> has \<open>None\<close> for it, not the
  default that the merge of the specification has.
\<close>

theorem create_as_dict_counterexample:
  "new_model User [(''name'', PStr ''bob'')] = Inr (new_user [(''name'', PStr ''bob'')])
   \<and> fst (create user_repository (Some [(''name'', PStr ''bob'')]) users)
     = Inr (new_user [(''name'', PStr ''bob'')])
   \<and> as_dict (new_user [(''name'', PStr ''bob'')])
     = Inr [(''id'', PNone), (''name'', PStr ''bob''), (''status'', PNone)]
   \<and> spec_merged_with_defaults User [(''name'', PStr ''bob'')]
     = [(''id'', PNone), (''name'', PStr ''bob''), (''status'', PStr ''active'')]"
proof -
  have "fst (create user_repository (Some [(''name'', PStr ''bob'')]) users)
     = Inr (new_user [(''name'', PStr ''bob'')])"
    by (simp add: create_def user_new user_repository_def session_add_def raised_def users_def
        state_error_def new_user_def)
  moreover have "as_dict (new_user [(''name'', PStr ''bob'')])
     = Inr [(''id'', PNone), (''name'', PStr ''bob''), (''status'', PNone)]"
    by (simp add: as_dict_def getattr_def column_get_def find_column_def new_user_def User_def
        user_columns_def)
  moreover have "spec_merged_with_defaults User [(''name'', PStr ''bob'')]
     = [(''id'', PNone), (''name'', PStr ''bob''), (''status'', PStr ''active'')]"
    by (simp add: spec_merged_with_defaults_def User_def user_columns_def)
  ultimately show ?thesis using user_new(2) by simp
qed

subsection \<open>The health check\<close>

text \<open>
  Claim C10, amended. For every request and every value of the query parameters,
  \<open>test1\<close> included, the body of the handler returns the payload \<open>{'status': 'ok'}\<close>,
  and on a cache that holds nothing but what the health check has stored (the empty
  cache for one, and the cache after every request) the request is answered with this
  payload and status 200, from the cache or not. There is one other effect, that of
  the cache around the handler: when it holds no fresh entry for the tag and \<open>test1\<close>,
  the payload is stored under this key with the time of the request; when it holds
  one, it is left as it is.
\<close>

theorem health_check_constant:
  "HealthCheck_get request query_params = [(''status'', ''ok'')]
   \<and> (cache_ok c \<longrightarrow>
        health_check now request query_params c =
          (\<lparr>status_code = 200, body = [(''status'', ''ok'')]\<rparr>,
           (case fresh c (''GET_HEALTH_CHECK'', test1 query_params) 120 now of
              Some p \<Rightarrow> c
            | None \<Rightarrow> c((''GET_HEALTH_CHECK'', test1 query_params) \<mapsto> ([(''status'', ''ok'')], now))))
        \<and> cache_ok (snd (health_check now request query_params c)))
   \<and> serve requests Map.empty
       = replicate (length requests) \<lparr>status_code = 200, body = [(''status'', ''ok'')]\<rparr>"
  using health_check_step [of c now request query_params] serve_ok [of Map.empty requests]
  by (simp add: HealthCheck_get_def cache_ok_def)

theorem health_check_constant_witness:
  "cache_ok Map.empty
   \<and> health_check 0 () \<lparr>test1 = Some ''a'', test2 = None\<rparr> Map.empty
       = (\<lparr>status_code = 200, body = [(''status'', ''ok'')]\<rparr>,
          [(''GET_HEALTH_CHECK'', Some ''a'') \<mapsto> ([(''status'', ''ok'')], 0)])
   \<and> cache_ok [(''GET_HEALTH_CHECK'', Some ''a'') \<mapsto> ([(''status'', ''ok'')], 0)]
   \<and> health_check 60 () \<lparr>test1 = Some ''a'', test2 = None\<rparr>
        [(''GET_HEALTH_CHECK'', Some ''a'') \<mapsto> ([(''status'', ''ok'')], 0)]
       = (\<lparr>status_code = 200, body = [(''status'', ''ok'')]\<rparr>,
          [(''GET_HEALTH_CHECK'', Some ''a'') \<mapsto> ([(''status'', ''ok'')], 0)])
   \<and> serve [(0, (), \<lparr>test1 = Some ''a'', test2 = None\<rparr>),
             (60, (), \<lparr>test1 = Some ''a'', test2 = None\<rparr>),
             (200, (), \<lparr>test1 = Some ''b'', test2 = None\<rparr>)] Map.empty
       = [\<lparr>status_code = 200, body = [(''status'', ''ok'')]\<rparr>,
          \<lparr>status_code = 200, body = [(''status'', ''ok'')]\<rparr>,
          \<lparr>status_code = 200, body = [(''status'', ''ok'')]\<rparr>]"
proof -
  have e: "cache_ok Map.empty" by (simp add: cache_ok_def)
  have o: "cache_ok [(''GET_HEALTH_CHECK'', Some ''a'') \<mapsto> ([(''status'', ''ok'')], 0)]"
    by (simp add: cache_ok_def)
  from health_check_constant [of "()" "\<lparr>test1 = Some ''a'', test2 = None\<rparr>" Map.empty 0 "[]"] e
  have 1: "health_check 0 () \<lparr>test1 = Some ''a'', test2 = None\<rparr> Map.empty
       = (\<lparr>status_code = 200, body = [(''status'', ''ok'')]\<rparr>,
          [(''GET_HEALTH_CHECK'', Some ''a'') \<mapsto> ([(''status'', ''ok'')], 0)])"
    by (simp add: fresh_def)
  from health_check_constant [of "()" "\<lparr>test1 = Some ''a'', test2 = None\<rparr>"
      "[(''GET_HEALTH_CHECK'', Some ''a'') \<mapsto> ([(''status'', ''ok'')], 0)]" 60 "[]"] o
  have 2: "health_check 60 () \<lparr>test1 = Some ''a'', test2 = None\<rparr>
        [(''GET_HEALTH_CHECK'', Some ''a'') \<mapsto> ([(''status'', ''ok'')], 0)]
       = (\<lparr>status_code = 200, body = [(''status'', ''ok'')]\<rparr>,
          [(''GET_HEALTH_CHECK'', Some ''a'') \<mapsto> ([(''status'', ''ok'')], 0)])"
    by (simp add: fresh_def)
  from health_check_constant [of "()" "\<lparr>test1 = Some ''a'', test2 = None\<rparr>" Map.empty 0
      "[(0, (), \<lparr>test1 = Some ''a'', test2 = None\<rparr>),
        (60, (), \<lparr>test1 = Some ''a'', test2 = None\<rparr>),
        (200, (), \<lparr>test1 = Some ''b'', test2 = None\<rparr>)]"]
  have 3: "serve [(0, (), \<lparr>test1 = Some ''a'', test2 = None\<rparr>),
             (60, (), \<lparr>test1 = Some ''a'', test2 = None\<rparr>),
             (200, (), \<lparr>test1 = Some ''b'', test2 = None\<rparr>)] Map.empty
       = [\<lparr>status_code = 200, body = [(''status'', ''ok'')]\<rparr>,
          \<lparr>status_code = 200, body = [(''status'', ''ok'')]\<rparr>,
          \<lparr>status_code = 200, body = [(''status'', ''ok'')]\<rparr>]"
    by (simp add: numeral_eq_Suc)
  from e o 1 2 3 show ?thesis by blast
qed

text \<open>
  The claim as stated, "no other effect", fails on the first request: the cache was
  empty before it and holds an entry after it.
\<close>

theorem health_check_effect_counterexample:
  "snd (health_check 0 () \<lparr>test1 = Some ''a'', test2 = None\<rparr> Map.empty)
       (''GET_HEALTH_CHECK'', Some ''a'') = Some ([(''status'', ''ok'')], 0)
   \<and> (Map.empty :: cache) (''GET_HEALTH_CHECK'', Some ''a'') = None"
  by (simp add: health_check_def cached_def fresh_def HealthCheck_get_def Let_def)

end
